theory Spec2Isabelle
  imports Complex_Main "HOL-Library.Sublist"
begin

section \<open>Paths\<close>

text \<open>
  Python strings are modelled as \<^typ>\<open>string\<close>. The helpers below are the string
  methods that \<^verbatim>\<open>core.py\<close> calls: \<^verbatim>\<open>lstrip("/")\<close>, \<^verbatim>\<open>rstrip("/")\<close>,
  \<^verbatim>\<open>startswith\<close>, \<^verbatim>\<open>split("/", 1)\<close>, \<^verbatim>\<open>rsplit("/", 1)\<close> and
  \<^verbatim>\<open>partition(sep)\<close>.
\<close>

definition lstrip_slash :: "string \<Rightarrow> string" where
  "lstrip_slash p = dropWhile (\<lambda>c. c = CHR ''/'') p"

definition rstrip_slash :: "string \<Rightarrow> string" where
  "rstrip_slash p = rev (dropWhile (\<lambda>c. c = CHR ''/'') (rev p))"

definition startswith :: "string \<Rightarrow> string \<Rightarrow> bool" where
  "startswith p s = (take (length s) p = s)"

text \<open>\<^verbatim>\<open>"/" in path\<close>.\<close>

definition has_slash :: "string \<Rightarrow> bool" where
  "has_slash p = (CHR ''/'' \<in> set p)"

text \<open>\<^verbatim>\<open>path.split("/", 1)\<close> on a path that contains a slash: the text before the first
  slash and the text after it.\<close>

definition split_first_slash :: "string \<Rightarrow> string \<times> string" where
  "split_first_slash p =
     (takeWhile (\<lambda>c. c \<noteq> CHR ''/'') p, tl (dropWhile (\<lambda>c. c \<noteq> CHR ''/'') p))"

text \<open>\<^verbatim>\<open>path.rsplit("/", 1)[0]\<close> on a path that contains a slash: the text before the
  last slash.\<close>

definition rsplit_last_slash :: "string \<Rightarrow> string" where
  "rsplit_last_slash p = rev (tl (dropWhile (\<lambda>c. c \<noteq> CHR ''/'') (rev p)))"

text \<open>\<^verbatim>\<open>s.partition(sep)\<close> for a non-empty separator: \<open>(before, sep, after)\<close> at the
  first occurrence of \<open>sep\<close>, and \<open>(s, "", "")\<close> when there is none.\<close>

fun str_partition :: "string \<Rightarrow> string \<Rightarrow> string \<times> string \<times> string" where
  "str_partition sep [] = ([], [], [])"
| "str_partition sep (c # cs) =
     (if startswith (c # cs) sep then ([], sep, drop (length sep) (c # cs))
      else (case str_partition sep cs of (b, m, a) \<Rightarrow> (c # b, m, a)))"

text \<open>The class attributes \<^verbatim>\<open>root_marker = ""\<close> and \<^verbatim>\<open>protocol = ["s3", "s3a"]\<close> of
  \<^verbatim>\<open>S3FileSystem\<close>.\<close>

definition root_marker :: string where
  "root_marker = ''''"

definition protocol :: "string list" where
  "protocol = [''s3'', ''s3a'']"

text \<open>
  Modelled from the spec: \<^verbatim>\<open>_strip_protocol\<close> and \<^verbatim>\<open>_parent\<close> are inherited from the
  file-system base class, which is not part of \<^verbatim>\<open>core.py\<close>. The path resolver
  "strips any scheme prefix" (one of the entries of \<open>protocol\<close>, followed by \<^verbatim>\<open>://\<close> or
  \<^verbatim>\<open>::\<close>), drops trailing slashes and returns \<open>root_marker\<close> for what is then empty;
  the parent of a path is the text before its last slash, and \<open>root_marker\<close> for a path
  without a slash, so that the ancestors of \<^verbatim>\<open>a/b/c\<close> are \<^verbatim>\<open>a/b\<close>, \<^verbatim>\<open>a\<close> and the root.
\<close>

definition strip_one :: "string \<Rightarrow> string \<Rightarrow> string" where
  "strip_one path proto =
     (if startswith path (proto @ ''://'') then drop (length proto + 3) path
      else if startswith path (proto @ ''::'') then drop (length proto + 2) path
      else path)"

definition strip_protocol :: "string \<Rightarrow> string" where
  "strip_protocol path =
     (let p = rstrip_slash (foldl strip_one path protocol)
      in if p = [] then root_marker else p)"

definition parent :: "string \<Rightarrow> string" where
  "parent path =
     (let p = strip_protocol path
      in if has_slash p then root_marker @ rsplit_last_slash p else root_marker)"

subsection \<open>\<^verbatim>\<open>S3FileSystem.split_path\<close>\<close>

text \<open>
  \<^verbatim>\<open>
  path = self._strip_protocol(path)
  path = path.lstrip("/")
  if "/" not in path:
      return path, "", None
  else:
      bucket, keypart = path.split("/", 1)
      key, _, version_id = keypart.partition("?versionId=")
      return (bucket, key,
              version_id if self.version_aware and version_id else None)
  \<close>
  The file system's \<^verbatim>\<open>version_aware\<close> flag is the first argument.
\<close>

definition version_marker :: string where
  "version_marker = ''?versionId=''"

definition split_path :: "bool \<Rightarrow> string \<Rightarrow> string \<times> string \<times> string option" where
  "split_path version_aware path0 =
     (let path = lstrip_slash (strip_protocol path0)
      in if \<not> has_slash path then (path, '''', None)
         else (case split_first_slash path of (bucket, keypart) \<Rightarrow>
                (case str_partition version_marker keypart of (key, _, version_id) \<Rightarrow>
                   (bucket, key,
                    if version_aware \<and> version_id \<noteq> [] then Some version_id else None))))"

subsection \<open>Facts about the string helpers\<close>

lemma startswith_prefix: "startswith p s = prefix s p"
  unfolding startswith_def
  by (metis prefix_def take_is_prefix append_eq_conv_conj prefixE)

lemma takeWhile_until: "d \<notin> set b \<Longrightarrow> takeWhile (\<lambda>x. x \<noteq> d) (b @ d # r) = b"
  by (induction b) auto

lemma dropWhile_until: "d \<notin> set b \<Longrightarrow> dropWhile (\<lambda>x. x \<noteq> d) (b @ d # r) = d # r"
  by (induction b) auto

lemma prefix_colon_in_bucket:
  assumes "prefix (s1 @ c # s2) (b @ d # r)" "d \<notin> set s1" "c \<noteq> d" "d \<notin> set b"
  shows "c \<in> set b"
proof -
  from assms(1) obtain t where eq: "b @ d # r = s1 @ c # s2 @ t"
    by (auto simp: prefix_def)
  have "takeWhile (\<lambda>x. x \<noteq> d) (b @ d # r) = b"
    using assms(4) by (rule takeWhile_until)
  moreover have "takeWhile (\<lambda>x. x \<noteq> d) (s1 @ c # s2 @ t)
                   = s1 @ c # takeWhile (\<lambda>x. x \<noteq> d) (s2 @ t)"
    using assms(2,3) by (induction s1) auto
  ultimately show ?thesis using eq by (metis in_set_conv_decomp)
qed

text \<open>A path whose first component has neither a colon nor a slash carries no scheme.\<close>

lemma strip_one_bucket:
  assumes "CHR '':'' \<notin> set b" "CHR ''/'' \<notin> set b"
    and "CHR '':'' \<notin> set proto" "CHR ''/'' \<notin> set proto"
  shows "strip_one (b @ CHR ''/'' # r) proto = b @ CHR ''/'' # r"
proof -
  have "\<not> prefix (proto @ CHR '':'' # ''//'') (b @ CHR ''/'' # r)"
    using prefix_colon_in_bucket[of proto "CHR '':''" "''//''" b "CHR ''/''" r] assms by auto
  moreover have "\<not> prefix (proto @ CHR '':'' # '':'') (b @ CHR ''/'' # r)"
    using prefix_colon_in_bucket[of proto "CHR '':''" "'':''" b "CHR ''/''" r] assms by auto
  ultimately show ?thesis by (simp add: strip_one_def startswith_prefix)
qed

lemma rstrip_slash_append:
  "rstrip_slash (xs @ ys)
     = (if rstrip_slash ys = [] then rstrip_slash xs else xs @ rstrip_slash ys)"
  by (auto simp: rstrip_slash_def dropWhile_append)

lemma rstrip_slash_snoc_other: "c \<noteq> CHR ''/'' \<Longrightarrow> rstrip_slash (xs @ [c]) = xs @ [c]"
  by (simp add: rstrip_slash_def)

lemma rstrip_slash_marker:
  "rstrip_slash (xs @ version_marker @ v) = xs @ version_marker @ rstrip_slash v"
proof -
  have m: "xs @ version_marker = (xs @ ''?versionId'') @ [CHR ''='']"
    by (simp add: version_marker_def)
  have "rstrip_slash (xs @ version_marker) = xs @ version_marker"
    unfolding m by (rule rstrip_slash_snoc_other) simp
  then show ?thesis
    using rstrip_slash_append[of "xs @ version_marker" v] by simp
qed

lemma strip_protocol_bucket:
  assumes "CHR '':'' \<notin> set b" "CHR ''/'' \<notin> set b"
  shows "strip_protocol (b @ CHR ''/'' # k @ version_marker @ v)
           = b @ CHR ''/'' # k @ version_marker @ rstrip_slash v"
proof -
  have "foldl strip_one (b @ CHR ''/'' # k @ version_marker @ v) protocol
          = b @ CHR ''/'' # k @ version_marker @ v"
    using assms by (simp add: protocol_def strip_one_bucket)
  moreover have "rstrip_slash (b @ CHR ''/'' # k @ version_marker @ v)
          = b @ CHR ''/'' # k @ version_marker @ rstrip_slash v"
    using rstrip_slash_marker[of "b @ CHR ''/'' # k" v] by simp
  ultimately show ?thesis by (simp add: strip_protocol_def)
qed

lemma str_partition_no_q:
  "CHR ''?'' \<notin> set k \<Longrightarrow>
     str_partition version_marker (k @ version_marker @ v) = (k, version_marker, v)"
  by (induction k) (auto simp: startswith_def version_marker_def)

lemma lstrip_slash_bucket:
  "b \<noteq> [] \<Longrightarrow> CHR ''/'' \<notin> set b \<Longrightarrow> lstrip_slash (b @ r) = b @ r"
  by (cases b) (auto simp: lstrip_slash_def)

lemma split_path_marker:
  assumes "b \<noteq> []" "CHR ''/'' \<notin> set b" "CHR '':'' \<notin> set b" "CHR ''?'' \<notin> set k"
  shows "split_path va (b @ CHR ''/'' # k @ version_marker @ v)
           = (b, k, if va \<and> rstrip_slash v \<noteq> [] then Some (rstrip_slash v) else None)"
proof -
  let ?p = "b @ CHR ''/'' # k @ version_marker @ rstrip_slash v"
  have s: "strip_protocol (b @ CHR ''/'' # k @ version_marker @ v) = ?p"
    using assms by (simp add: strip_protocol_bucket)
  have l: "lstrip_slash ?p = ?p"
    using assms by (simp add: lstrip_slash_bucket)
  have h: "has_slash ?p" by (simp add: has_slash_def)
  have f: "split_first_slash ?p = (b, k @ version_marker @ rstrip_slash v)"
    using assms by (simp add: split_first_slash_def takeWhile_until dropWhile_until)
  show ?thesis
    using assms(4) by (simp add: split_path_def s l h f str_partition_no_q)
qed

subsection \<open>The version marker on a version-unaware file system\<close>

text \<open>
  Claim C2 as the specification states it: on a version-unaware file system,
  \<^verbatim>\<open>split_path("bucket/key?versionId=v")\<close> returns the version \<^verbatim>\<open>None\<close> and keeps the
  marker as a literal suffix of the key, that is the key \<^verbatim>\<open>key?versionId=v\<close>. The code
  partitions the key part at the marker whatever the mode is; only the returned
  version depends on \<^verbatim>\<open>version_aware\<close>. At the path of the claim the returned key is
  \<^verbatim>\<open>key\<close>, not \<^verbatim>\<open>key?versionId=v\<close>.
\<close>

theorem split_path_unaware_keeps_marker_counterexample:
  "fst (snd (split_path False ''bucket/key?versionId=v'')) \<noteq> ''key?versionId=v''"
  by code_simp

text \<open>
  Claim C2, amended: for every path \<^verbatim>\<open>bucket/key?versionId=v\<close> (the bucket a non-empty
  component without slash or colon, the key without a question mark) given to
  \<^verbatim>\<open>split_path\<close> on a version-unaware file system, the returned version is \<^verbatim>\<open>None\<close>
  and the returned key is \<^verbatim>\<open>key\<close>: the marker and the version after it are dropped
  from the key.
\<close>

theorem split_path_unaware_drops_marker:
  assumes "b \<noteq> []" "CHR ''/'' \<notin> set b" "CHR '':'' \<notin> set b" "CHR ''?'' \<notin> set k"
  shows "split_path False (b @ ''/'' @ k @ ''?versionId='' @ v) = (b, k, None)"
  using split_path_marker[OF assms, of False v] by (simp add: version_marker_def)

theorem split_path_unaware_drops_marker_witness:
  "''bucket'' \<noteq> [] \<and> CHR ''/'' \<notin> set ''bucket'' \<and> CHR '':'' \<notin> set ''bucket''
   \<and> CHR ''?'' \<notin> set ''key''
   \<and> split_path False ''bucket/key?versionId=v'' = (''bucket'', ''key'', None)"
  using split_path_unaware_drops_marker[of "''bucket''" "''key''" "''v''"] by simp

text \<open>On a version-aware file system the same path yields the version.\<close>

lemma split_path_aware_version:
  "split_path True ''bucket/key?versionId=v'' = (''bucket'', ''key'', Some ''v'')"
  by code_simp

section \<open>The directory cache\<close>

text \<open>
  \<^verbatim>\<open>self.dircache\<close> maps a path to the list of entries of its last listing. The entry
  type is left open here; the listing engine below instantiates it.
\<close>

type_synonym 'e dircache = "string \<rightharpoonup> 'e list"

subsection \<open>\<^verbatim>\<open>S3FileSystem.invalidate_cache\<close>\<close>

text \<open>
  \<^verbatim>\<open>
  def invalidate_cache(self, path=None):
      if path is None:
          self.dircache.clear()
      else:
          path = self._strip_protocol(path)
          self.dircache.pop(path, None)
          while path:
              self.dircache.pop(path, None)
              path = self._parent(path)
  \<close>
  The loop ends because a parent is shorter than its path.
\<close>

lemma length_strip_one: "length (strip_one p proto) \<le> length p"
  by (simp add: strip_one_def)

lemma length_rstrip_slash: "length (rstrip_slash p) \<le> length p"
  by (simp add: rstrip_slash_def length_dropWhile_le order_trans[OF length_dropWhile_le])

lemma length_strip_protocol: "length (strip_protocol p) \<le> length p"
proof -
  have "length (foldl strip_one p protocol) \<le> length p"
    by (simp add: protocol_def order_trans[OF length_strip_one length_strip_one])
  then show ?thesis
    using length_rstrip_slash[of "foldl strip_one p protocol"]
    by (simp add: strip_protocol_def Let_def root_marker_def)
qed

lemma length_rsplit_last_slash: "q \<noteq> [] \<Longrightarrow> length (rsplit_last_slash q) < length q"
proof -
  assume "q \<noteq> []"
  have "length (tl (dropWhile (\<lambda>c. c \<noteq> CHR ''/'') (rev q))) \<le> length (rev q) - 1"
    using length_dropWhile_le[of "\<lambda>c. c \<noteq> CHR ''/''" "rev q"] by simp
  with \<open>q \<noteq> []\<close> show ?thesis by (cases q) (auto simp: rsplit_last_slash_def)
qed

lemma parent_shorter: "p \<noteq> [] \<Longrightarrow> length (parent p) < length p"
proof -
  assume ne: "p \<noteq> []"
  show ?thesis
  proof (cases "has_slash (strip_protocol p)")
    case True
    then have "strip_protocol p \<noteq> []" by (auto simp: has_slash_def)
    then have "length (rsplit_last_slash (strip_protocol p)) < length (strip_protocol p)"
      by (rule length_rsplit_last_slash)
    with True length_strip_protocol[of p] show ?thesis
      by (simp add: parent_def root_marker_def)
  next
    case False
    with ne show ?thesis by (simp add: parent_def root_marker_def)
  qed
qed

function invalidate_walk :: "string \<Rightarrow> 'e dircache \<Rightarrow> 'e dircache" where
  "invalidate_walk path cache =
     (if path = [] then cache else invalidate_walk (parent path) (cache(path := None)))"
  by pat_completeness auto
termination
  by (relation "measure (\<lambda>(path, cache). length path)") (auto simp: parent_shorter)

definition invalidate_cache :: "string option \<Rightarrow> 'e dircache \<Rightarrow> 'e dircache" where
  "invalidate_cache path cache =
     (case path of
        None \<Rightarrow> Map.empty
      | Some p \<Rightarrow> (let p' = strip_protocol p in invalidate_walk p' (cache(p' := None))))"

declare invalidate_walk.simps [simp del]

lemma invalidate_walk_root: "invalidate_walk [] m = m"
  by (simp add: invalidate_walk.simps)

lemma invalidate_walk_step:
  "p \<noteq> [] \<Longrightarrow> invalidate_walk p m = invalidate_walk (parent p) (m(p := None))"
  by (simp add: invalidate_walk.simps)


lemma invalidate_walk_keeps_root: "invalidate_walk p m [] = m []"
proof (induction p m rule: invalidate_walk.induct)
  case (1 path cache)
  show ?case
  proof (cases "path = []")
    case True
    then show ?thesis by (simp add: invalidate_walk_root)
  next
    case False
    from 1[OF False]
    have "invalidate_walk (parent path) (cache(path := None)) [] = (cache(path := None)) []" .
    moreover have "invalidate_walk path cache
                     = invalidate_walk (parent path) (cache(path := None))"
      using False by (rule invalidate_walk_step)
    ultimately show ?thesis using False by simp
  qed
qed

lemma parent_abc: "parent ''a/b/c'' = ''a/b''"
  by code_simp

lemma parent_ab: "parent ''a/b'' = ''a''"
  by code_simp

lemma parent_a: "parent ''a'' = []"
  by code_simp

lemma strip_protocol_abc: "strip_protocol ''a/b/c'' = ''a/b/c''"
  by code_simp

lemma invalidate_walk_abc:
  "invalidate_walk ''a/b/c'' m = m(''a/b/c'' := None, ''a/b'' := None, ''a'' := None)"
  by (simp add: invalidate_walk_step invalidate_walk_root parent_abc parent_ab parent_a)

text \<open>
  Claim C5 as the specification states it: \<^verbatim>\<open>invalidate_cache("a/b/c")\<close> removes the
  entries of \<^verbatim>\<open>a/b/c\<close>, \<^verbatim>\<open>a/b\<close>, \<^verbatim>\<open>a\<close> and of the root \<^verbatim>\<open>""\<close>. The loop stops as soon
  as the path is empty, before popping it, so a cached root listing survives.
\<close>

theorem invalidate_cache_root_counterexample:
  "invalidate_cache (Some ''a/b/c'') [[] \<mapsto> [()], ''a/b/c'' \<mapsto> [()]] [] \<noteq> None"
  by (simp add: invalidate_cache_def strip_protocol_abc invalidate_walk_abc)

text \<open>
  Claim C5, amended: for every state of the directory cache,
  \<^verbatim>\<open>invalidate_cache("a/b/c")\<close> removes the entries of exactly \<^verbatim>\<open>a/b/c\<close>, \<^verbatim>\<open>a/b\<close> and
  \<^verbatim>\<open>a\<close> and leaves every other cached path unchanged, the root \<^verbatim>\<open>""\<close> and sibling
  subtrees such as \<^verbatim>\<open>a/d\<close> included; \<^verbatim>\<open>invalidate_cache(None)\<close> clears the whole cache.
\<close>

theorem invalidate_cache_abc:
  "invalidate_cache (Some ''a/b/c'') m = m |` (- {''a/b/c'', ''a/b'', ''a''})
   \<and> invalidate_cache None m = Map.empty"
  by (auto simp: invalidate_cache_def strip_protocol_abc invalidate_walk_abc
        restrict_map_def fun_eq_iff)

text \<open>The root entry is removed only when the root itself is invalidated, as
  \<^verbatim>\<open>_mkdir\<close> and \<^verbatim>\<open>_rmdir\<close> do with \<^verbatim>\<open>invalidate_cache("")\<close>.\<close>

lemma invalidate_cache_nonroot_keeps_root:
  "strip_protocol p \<noteq> [] \<Longrightarrow> invalidate_cache (Some p) m [] = m []"
  by (simp add: invalidate_cache_def Let_def invalidate_walk_keeps_root)

lemma invalidate_cache_root: "invalidate_cache (Some []) m = m([] := None)"
proof -
  have "strip_protocol [] = []" by code_simp
  then show ?thesis by (simp add: invalidate_cache_def invalidate_walk_root)
qed

section \<open>Errors and listing entries\<close>

text \<open>
  Exceptions are values. \<open>OSError\<close> carries its class (the built-in subclasses that
  \<^verbatim>\<open>except OSError\<close> also catches) and its \<^verbatim>\<open>args\<close> tuple; \<open>OSError Timeout\<close> is
  \<^verbatim>\<open>socket.timeout\<close>, the only member of \<^verbatim>\<open>S3_RETRYABLE_ERRORS\<close>.
\<close>

datatype pyval = PInt int | PStr string

datatype os_class = Plain | NotFound | Permission | Exists | Timeout

datatype exn =
    ValueError string
  | RuntimeError
  | UnboundLocalError string
  | KeyError string
  | IndexError
  | TypeError
  | AttributeError
  | ClientError string
  | ParamValidationError
  | OSError os_class "pyval list"
  | FileExpired string string

text \<open>A listing entry: the dictionary that \<^verbatim>\<open>_lsdir\<close> and \<^verbatim>\<open>_info\<close> build for a file or
  a directory. Keys that may be absent are options.\<close>

record entry =
  e_Key :: string
  e_Size :: nat
  e_StorageClass :: string
  e_type :: string
  e_size :: nat
  e_name :: string
  e_ETag :: "string option"
  e_VersionId :: "string option"

section \<open>The listing engine\<close>

subsection \<open>\<^verbatim>\<open>S3FileSystem._find\<close>: the guards\<close>

text \<open>
  \<^verbatim>\<open>
  path = self._strip_protocol(path)
  bucket, key, _ = self.split_path(path)
  if not bucket:
      raise ValueError("Cannot traverse all of S3")
  if (withdirs or maxdepth) and prefix:
      raise ValueError("Can not specify 'prefix' option alongside ...")
  if maxdepth:
      return await super()._find(bucket + "/" + key, maxdepth=maxdepth, ...)
  out = await self._lsdir(path, delimiter="", prefix=prefix)
  ...
  \<close>
  A result is the list of remote calls made, in order, and the value or the exception.
  The two ways on after the guards are parameters: \<open>super_find\<close> is the depth-bounded
  walk of the base class, \<open>flat_find\<close> the flat enumeration that starts with the remote
  listing of \<^verbatim>\<open>_lsdir\<close>. Both may call the remote store; the guards do not.
\<close>

definition truthy_int :: "int option \<Rightarrow> bool" where
  "truthy_int n = (n \<noteq> None \<and> n \<noteq> Some 0)"

definition find_s3 ::
  "bool \<Rightarrow> (string \<Rightarrow> int option \<Rightarrow> bool \<Rightarrow> 'c list \<times> (exn + 'a))
        \<Rightarrow> (string \<Rightarrow> string \<Rightarrow> bool \<Rightarrow> string \<Rightarrow> 'c list \<times> (exn + 'a))
        \<Rightarrow> string \<Rightarrow> int option \<Rightarrow> bool \<Rightarrow> string \<Rightarrow> 'c list \<times> (exn + 'a)" where
  "find_s3 version_aware super_find flat_find path0 maxdepth withdirs pfx =
     (let path = strip_protocol path0
      in case split_path version_aware path of (bucket, key, _) \<Rightarrow>
           if bucket = [] then ([], Inl (ValueError ''Cannot traverse all of S3''))
           else if (withdirs \<or> truthy_int maxdepth) \<and> pfx \<noteq> [] then
             ([], Inl (ValueError
               ''Can not specify 'prefix' option alongside 'withdirs'/'maxdepth' options.''))
           else if truthy_int maxdepth then super_find (bucket @ ''/'' @ key) maxdepth withdirs
           else flat_find path key withdirs pfx)"

text \<open>
  Claim C9: a call of \<^verbatim>\<open>find\<close> with a path that has no bucket component (the empty
  path, and also \<^verbatim>\<open>/\<close> or a bare scheme) fails with \<^verbatim>\<open>ValueError\<close>, and no remote call
  is made before it fails, whatever the other arguments are.
\<close>

theorem find_without_bucket:
  assumes "fst (split_path va (strip_protocol path)) = []"
  shows "find_s3 va super_find flat_find path maxdepth withdirs pfx
           = ([], Inl (ValueError ''Cannot traverse all of S3''))"
proof (cases "split_path va (strip_protocol path)")
  case (fields bucket key version)
  with assms have "bucket = []" by simp
  with fields show ?thesis by (simp add: find_s3_def)
qed

lemma split_path_empty: "split_path va (strip_protocol []) = ([], [], None)"
  by code_simp

lemma split_path_slash: "split_path va (strip_protocol ''/'') = ([], [], None)"
  by code_simp

lemma split_path_scheme: "split_path va (strip_protocol ''s3://'') = ([], [], None)"
  by code_simp

theorem find_without_bucket_witness:
  "fst (split_path False (strip_protocol [])) = []
   \<and> find_s3 False (\<lambda>p m w. ([''list_objects_v2''], Inr [p]))
        (\<lambda>p k w x. ([''list_objects_v2''], Inr [p])) [] None False []
       = ([], Inl (ValueError ''Cannot traverse all of S3''))"
  using find_without_bucket[of False "[]"] by (simp add: split_path_empty)

subsection \<open>\<^verbatim>\<open>S3FileSystem._lsdir\<close>\<close>

text \<open>
  The paginator of \<^verbatim>\<open>list_objects_v2\<close> is the parameter \<open>paginate\<close>: given bucket,
  prefix, delimiter and \<^verbatim>\<open>max_items\<close> it yields the pages or raises. Each page has its
  \<^verbatim>\<open>CommonPrefixes\<close> (the \<^verbatim>\<open>Prefix\<close> of each) and its \<^verbatim>\<open>Contents\<close>.
  \<^verbatim>\<open>translate_boto_error\<close> lives in \<^verbatim>\<open>s3fs/errors.py\<close>, outside \<^verbatim>\<open>core.py\<close>, and is a
  parameter as well.
  \<^verbatim>\<open>
  bucket, key, _ = self.split_path(path)
  if not prefix: prefix = ""
  if key: prefix = key.lstrip("/") + "/" + prefix
  if path not in self.dircache or refresh or not delimiter:
      try:
          ...
          files = []; dircache = []
          async for i in it:
              dircache.extend(i.get("CommonPrefixes", []))
              for c in i.get("Contents", []):
                  c["type"] = "file"; c["size"] = c["Size"]; files.append(c)
          if dircache:
              files.extend([{"Key": l["Prefix"][:-1], "Size": 0,
                             "StorageClass": "DIRECTORY", "type": "directory",
                             "size": 0} for l in dircache])
          for f in files:
              f["Key"] = "/".join([bucket, f["Key"]]); f["name"] = f["Key"]
      except ClientError as e:
          raise translate_boto_error(e)
      if delimiter and files:
          self.dircache[path] = files
      return files
  return self.dircache[path]
  \<close>
\<close>

record s3object =
  o_Key :: string
  o_Size :: nat
  o_StorageClass :: string
  o_ETag :: "string option"

record page =
  CommonPrefixes :: "string list"
  Contents :: "s3object list"

definition file_entry :: "s3object \<Rightarrow> entry" where
  "file_entry c =
     \<lparr>e_Key = o_Key c, e_Size = o_Size c, e_StorageClass = o_StorageClass c,
      e_type = ''file'', e_size = o_Size c, e_name = [], e_ETag = o_ETag c,
      e_VersionId = None\<rparr>"

definition directory_entry :: "string \<Rightarrow> entry" where
  "directory_entry pre =
     \<lparr>e_Key = butlast pre, e_Size = 0, e_StorageClass = ''DIRECTORY'',
      e_type = ''directory'', e_size = 0, e_name = [], e_ETag = None, e_VersionId = None\<rparr>"

definition qualify :: "string \<Rightarrow> entry \<Rightarrow> entry" where
  "qualify bucket f =
     f\<lparr>e_Key := bucket @ ''/'' @ e_Key f, e_name := bucket @ ''/'' @ e_Key f\<rparr>"

definition listing_files :: "string \<Rightarrow> page list \<Rightarrow> entry list" where
  "listing_files bucket pages =
     (let dircache = concat (map CommonPrefixes pages);
          files = map file_entry (concat (map Contents pages));
          files = (if dircache \<noteq> [] then files @ map directory_entry dircache else files)
      in map (qualify bucket) files)"

definition lsdir ::
  "bool \<Rightarrow> (exn \<Rightarrow> exn)
     \<Rightarrow> (string \<Rightarrow> string \<Rightarrow> string \<Rightarrow> nat option \<Rightarrow> exn + page list)
     \<Rightarrow> entry dircache \<Rightarrow> string \<Rightarrow> bool \<Rightarrow> nat option \<Rightarrow> string \<Rightarrow> string
     \<Rightarrow> (exn + entry list) \<times> entry dircache" where
  "lsdir version_aware translate_boto_error paginate dircache path refresh max_items delimiter
      pfx0 =
     (case split_path version_aware path of (bucket, key, _) \<Rightarrow>
        let pfx = (if key \<noteq> [] then lstrip_slash key @ ''/'' @ pfx0 else pfx0)
        in if dircache path = None \<or> refresh \<or> delimiter = [] then
             (case paginate bucket pfx delimiter max_items of
                Inl (ClientError code) \<Rightarrow>
                  (Inl (translate_boto_error (ClientError code)), dircache)
              | Inl e \<Rightarrow> (Inl e, dircache)
              | Inr pages \<Rightarrow>
                  let files = listing_files bucket pages
                  in (Inr files,
                      if delimiter \<noteq> [] \<and> files \<noteq> [] then dircache(path \<mapsto> files)
                      else dircache))
           else (Inr (the (dircache path)), dircache))"

text \<open>The cache holds no empty listing.\<close>

definition no_empty_listing :: "entry dircache \<Rightarrow> bool" where
  "no_empty_listing dircache = (\<forall>p. dircache p \<noteq> Some [])"

lemma lsdir_cases:
  assumes "lsdir va tr pg dc path refresh mx delim pfx = (r, dc')"
  shows "(\<exists>e. r = Inl e \<and> dc' = dc)
       \<or> (\<exists>files. r = Inr files
              \<and> dc' = (if delim \<noteq> [] \<and> files \<noteq> [] then dc(path \<mapsto> files) else dc))"
proof (cases "split_path va path")
  case (fields bucket key version)
  show ?thesis
  proof (cases "dc path = None \<or> refresh \<or> delim = []")
    case True
    with assms fields show ?thesis
      by (auto simp: lsdir_def Let_def split: sum.splits exn.splits if_splits)
  next
    case False
    then obtain fs where fs: "dc path = Some fs" by auto
    then have "dc(path \<mapsto> fs) = dc" by (rule map_upd_triv)
    moreover from False assms fields fs have "r = Inr fs" "dc' = dc"
      by (auto simp: lsdir_def Let_def)
    ultimately show ?thesis by simp
  qed
qed

subsection \<open>\<^verbatim>\<open>S3FileSystem._lsbuckets\<close>\<close>

text \<open>
  The listing of the root is cached by another method:
  \<^verbatim>\<open>
  if "" not in self.dircache or refresh:
      if self.anon:
          return []
      try:
          files = (await self._call_s3("list_buckets"))["Buckets"]
      except ClientError:
          return []
      for f in files:
          f["Key"] = f["Name"]; f["Size"] = 0; f["StorageClass"] = "BUCKET"
          f["size"] = 0; f["type"] = "directory"; f["name"] = f["Name"]
          del f["Name"]
      self.dircache[""] = files
      return files
  return self.dircache[""]
  \<close>
  The answer of \<^verbatim>\<open>list_buckets\<close> is a parameter: the names of the buckets, or the
  exception raised.
\<close>

definition bucket_entry :: "string \<Rightarrow> entry" where
  "bucket_entry n =
     \<lparr>e_Key = n, e_Size = 0, e_StorageClass = ''BUCKET'', e_type = ''directory'', e_size = 0,
      e_name = n, e_ETag = None, e_VersionId = None\<rparr>"

definition lsbuckets ::
  "bool \<Rightarrow> (exn + string list) \<Rightarrow> entry dircache \<Rightarrow> bool
     \<Rightarrow> (exn + entry list) \<times> entry dircache" where
  "lsbuckets anon list_buckets dircache refresh =
     (if dircache [] = None \<or> refresh then
        if anon then (Inr [], dircache)
        else (case list_buckets of
                Inl (ClientError code) \<Rightarrow> (Inr [], dircache)
              | Inl e \<Rightarrow> (Inl e, dircache)
              | Inr names \<Rightarrow>
                  let files = map bucket_entry names
                  in (Inr files, dircache([] \<mapsto> files)))
      else (Inr (the (dircache [])), dircache))"

subsection \<open>What \<^verbatim>\<open>_lsdir\<close> stores\<close>

text \<open>
  Claim C6 as the specification states it: \<^verbatim>\<open>_lsdir\<close> stores its listing if and only
  if a delimiter was used and the listing is not empty, and consequently the cache never
  holds an empty entry for any path. The first half is about \<^verbatim>\<open>_lsdir\<close> and holds; the
  consequence is about the cache, which has other writers. \<^verbatim>\<open>_lsbuckets\<close> stores the
  list of buckets without looking at it: for an account without buckets the cache then
  holds the empty listing at the root.
\<close>

theorem cache_holds_empty_listing_counterexample:
  "\<not> no_empty_listing (snd (lsbuckets False (Inr []) Map.empty False))"
  by (simp add: lsbuckets_def no_empty_listing_def)

text \<open>
  Claim C6, amended to \<^verbatim>\<open>_lsdir\<close> alone: whatever the path and the arguments are, the
  cache after \<^verbatim>\<open>_lsdir\<close> is the cache before it with the returned listing stored at the
  path exactly when a delimiter was used and the listing is not empty; in every other
  case (an empty listing, a flat scan without delimiter, an exception) the cache is
  unchanged. So a call of \<^verbatim>\<open>_lsdir\<close> without delimiter never changes the cache, and
  \<^verbatim>\<open>_lsdir\<close> never puts an empty listing into a cache that held none. Nothing is said
  about what other methods store.
\<close>

theorem lsdir_caches_nonempty_delimited:
  "snd (lsdir va tr pg dc path refresh mx delim pfx)
     = (case fst (lsdir va tr pg dc path refresh mx delim pfx) of
          Inl e \<Rightarrow> dc
        | Inr files \<Rightarrow> if delim \<noteq> [] \<and> files \<noteq> [] then dc(path \<mapsto> files) else dc)
   \<and> (delim = [] \<longrightarrow> snd (lsdir va tr pg dc path refresh mx delim pfx) = dc)
   \<and> (no_empty_listing dc
        \<longrightarrow> no_empty_listing (snd (lsdir va tr pg dc path refresh mx delim pfx)))"
proof -
  obtain r dc' where eq: "lsdir va tr pg dc path refresh mx delim pfx = (r, dc')"
    by (cases "lsdir va tr pg dc path refresh mx delim pfx")
  from lsdir_cases[OF eq] show ?thesis
    unfolding eq by (auto simp: no_empty_listing_def split: if_splits)
qed

definition demo_page :: page where
  "demo_page = \<lparr>CommonPrefixes = [''d/''],
                 Contents = [\<lparr>o_Key = ''k'', o_Size = 3, o_StorageClass = ''STANDARD'',
                              o_ETag = Some ''e''\<rparr>]\<rparr>"

lemma split_path_b: "split_path False ''b'' = (''b'', [], None)"
  by code_simp

theorem lsdir_caches_nonempty_delimited_witness:
  "no_empty_listing Map.empty
   \<and> no_empty_listing
       (snd (lsdir False id (\<lambda>b p d m. Inr [demo_page]) Map.empty ''b'' False None ''/'' []))
   \<and> snd (lsdir False id (\<lambda>b p d m. Inr [demo_page]) Map.empty ''b'' False None ''/'' [])
       = [''b'' \<mapsto> listing_files ''b'' [demo_page]]
   \<and> snd (lsdir False id (\<lambda>b p d m. Inr [demo_page]) Map.empty ''b'' False None [] [])
       = Map.empty"
proof -
  have l: "listing_files ''b'' [demo_page] \<noteq> []"
    by (simp add: listing_files_def demo_page_def)
  have f: "fst (lsdir False id (\<lambda>b p d m. Inr [demo_page]) Map.empty ''b'' False None ''/'' [])
            = Inr (listing_files ''b'' [demo_page])"
    by (simp add: lsdir_def split_path_b Let_def)
  have n: "no_empty_listing Map.empty" by (simp add: no_empty_listing_def)
  note t1 = lsdir_caches_nonempty_delimited[of False id "\<lambda>b p d m. Inr [demo_page]"
      Map.empty "''b''" False None "''/''" "[]"]
  note t2 = lsdir_caches_nonempty_delimited[of False id "\<lambda>b p d m. Inr [demo_page]"
      Map.empty "''b''" False None "[]" "[]"]
  have c2: "no_empty_listing (snd (lsdir False id (\<lambda>b p d m. Inr [demo_page]) Map.empty
              ''b'' False None ''/'' []))"
    using t1 n by blast
  have c3: "snd (lsdir False id (\<lambda>b p d m. Inr [demo_page]) Map.empty ''b'' False None ''/'' [])
              = [''b'' \<mapsto> listing_files ''b'' [demo_page]]"
    using t1 l by (simp add: f)
  have c4: "snd (lsdir False id (\<lambda>b p d m. Inr [demo_page]) Map.empty ''b'' False None [] [])
              = Map.empty"
    using t2 by blast
  from n c2 c3 c4 show ?thesis by blast
qed

section \<open>The remote call gateway\<close>

subsection \<open>\<^verbatim>\<open>S3FileSystem._call_s3\<close>\<close>


fun is_retryable :: "exn \<Rightarrow> bool" where
  "is_retryable (OSError Timeout a) = True"
| "is_retryable e = False"

definition backoff :: "nat \<Rightarrow> real" where
  "backoff i = min ((17 / 10) ^ i * (1 / 10)) 15"

text \<open>The loop: \<open>n\<close> iterations are left, \<open>i\<close> is the loop variable, \<open>err\<close> the last
  exception caught (unbound at first).\<close>

fun retry_loop ::
  "(nat \<Rightarrow> exn + 'r) \<Rightarrow> nat \<Rightarrow> nat \<Rightarrow> exn option \<Rightarrow> real list
     \<Rightarrow> (exn option + 'r) \<times> nat \<times> real list" where
  "retry_loop meth 0 i err sleeps = (Inl err, i, sleeps)"
| "retry_loop meth (Suc n) i err sleeps =
     (case meth i of
        Inr out \<Rightarrow> (Inr out, Suc i, sleeps)
      | Inl e \<Rightarrow>
          if is_retryable e then retry_loop meth n (Suc i) (Some e) (sleeps @ [backoff i])
          else (Inl (Some e), Suc i, sleeps))"

definition recover :: "(exn \<Rightarrow> bool) \<Rightarrow> (exn \<Rightarrow> exn option) \<Rightarrow> exn \<Rightarrow> exn" where
  "recover mentions_coroutine await_response err =
     (if mentions_coroutine err then
        (case await_response err of Some e \<Rightarrow> e | None \<Rightarrow> err)
      else err)"

definition call_s3 ::
  "(exn \<Rightarrow> exn) \<Rightarrow> (exn \<Rightarrow> bool) \<Rightarrow> (exn \<Rightarrow> exn option) \<Rightarrow> nat \<Rightarrow> (nat \<Rightarrow> exn + 'r)
     \<Rightarrow> (exn + 'r) \<times> nat \<times> real list" where
  "call_s3 translate_boto_error mentions_coroutine await_response retries meth =
     (case retry_loop meth retries 0 None [] of
        (Inr out, calls, sleeps) \<Rightarrow> (Inr out, calls, sleeps)
      | (Inl None, calls, sleeps) \<Rightarrow> (Inl (UnboundLocalError ''err''), calls, sleeps)
      | (Inl (Some err), calls, sleeps) \<Rightarrow>
          (Inl (translate_boto_error (recover mentions_coroutine await_response err)),
           calls, sleeps))"








text \<open>With \<^verbatim>\<open>retries = 0\<close> the method is never invoked and \<^verbatim>\<open>err\<close> is unbound where it
  is read.\<close>

lemma call_s3_no_attempts:
  "call_s3 tr mc aw 0 meth = (Inl (UnboundLocalError ''err''), 0, [])"
  by (simp add: call_s3_def)




section \<open>Remote calls, events and effects\<close>

text \<open>
  Python \<^verbatim>\<open>bytes\<close> are byte lists. A remote call is a request of the object store's
  client; only the arguments that the code below sets are kept. What the store answers
  is a parameter \<open>remote\<close> of every operation: for a request, the response or the
  exception that \<^verbatim>\<open>_call_s3\<close> ends with.
\<close>

type_synonym bytes = string

record part_info =
  PartNumber :: nat
  ETag :: string

datatype s3_call =
    CreateMultipartUpload string string string
  | UploadPart string string nat string bytes
  | UploadPartCopy string string nat string string "(nat \<times> nat) option"
  | CompleteMultipartUpload string string string "part_info list"
  | AbortMultipartUpload string string string
  | PutObject string string "bytes option"
  | GetObject string string "int \<times> int" "string option" "(string \<times> string) list"
  | CopyObject string string string string "string option"
  | DeleteObjects string "string list"
  | DeleteBucket string
  | CreateBucket string string "string option"
  | HeadObject string string "string option"
  | ListObjectsV2 string string string nat

record response =
  r_UploadId :: string
  r_ETag :: string
  r_VersionId :: "string option"
  r_Body :: bytes
  r_ContentLength :: nat
  r_Contents :: "s3object list option"
  r_KeyCount :: nat
  r_CommonPrefixes :: "string list"

text \<open>
  An effectful operation yields the events it caused, in order, and its value or the
  exception it raised. An event is a remote call, an invalidation of the directory cache,
  or a call back into the file system from a file handle (\<^verbatim>\<open>s3.info\<close>, \<^verbatim>\<open>s3.exists\<close>,
  \<^verbatim>\<open>s3.cat\<close>), which may itself go to the remote store.
\<close>

datatype event =
    Call s3_call
  | Invalidate string
  | FsInfo string "string option"
  | FsExists string
  | FsCat string

type_synonym 'a io = "event list \<times> (exn + 'a)"

definition io_return :: "'a \<Rightarrow> 'a io" where
  "io_return x = ([], Inr x)"

definition io_raise :: "exn \<Rightarrow> 'a io" where
  "io_raise e = ([], Inl e)"

definition io_bind :: "'a io \<Rightarrow> ('a \<Rightarrow> 'b io) \<Rightarrow> 'b io" where
  "io_bind m f =
     (case m of
        (evs, Inl e) \<Rightarrow> (evs, Inl e)
      | (evs, Inr x) \<Rightarrow> (case f x of (evs', r) \<Rightarrow> (evs @ evs', r)))"

definition io_call :: "(s3_call \<Rightarrow> exn + response) \<Rightarrow> s3_call \<Rightarrow> response io" where
  "io_call remote c = ([Call c], remote c)"

text \<open>Truth value of an optional string: \<^verbatim>\<open>None\<close> and \<^verbatim>\<open>""\<close> are false.\<close>

definition truthy_str :: "string option \<Rightarrow> bool" where
  "truthy_str v = (v \<noteq> None \<and> v \<noteq> Some [])"

text \<open>\<^verbatim>\<open>version_id_kw\<close>: the \<^verbatim>\<open>VersionId\<close> argument, present only for a true version id.\<close>

definition version_id_kw :: "string option \<Rightarrow> string option" where
  "version_id_kw version_id = (if truthy_str version_id then version_id else None)"

subsection \<open>\<^verbatim>\<open>_coalesce_version_id\<close>\<close>

text \<open>
  \<^verbatim>\<open>
  version_ids = set(args)
  if None in version_ids:
      version_ids.remove(None)
  if len(version_ids) > 1:
      raise ValueError("Cannot coalesce version_ids where more than one are defined, ...")
  elif len(version_ids) == 0:
      return None
  else:
      return version_ids.pop()
  \<close>
  The set is the argument list without duplicates.
\<close>

definition coalesce_version_id :: "string option list \<Rightarrow> exn + string option" where
  "coalesce_version_id args =
     (let version_ids = remdups (filter (\<lambda>v. v \<noteq> None) args)
      in if length version_ids > 1 then
           Inl (ValueError ''Cannot coalesce version_ids where more than one are defined'')
         else if length version_ids = 0 then Inr None
         else Inr (hd version_ids))"

subsection \<open>\<^verbatim>\<open>S3FileSystem._info\<close>\<close>










section \<open>The file handle \<^verbatim>\<open>S3File\<close>\<close>

datatype file_mode = Rb | Wb | Ab

text \<open>
  The fields of a handle that the methods below read or write. \<open>f_buffer\<close> is the
  contents of the write buffer, \<^verbatim>\<open>None\<close> once the handle is committed or discarded;
  \<open>f_loc\<close> is what \<^verbatim>\<open>tell()\<close> returns; \<open>f_offset\<close> is the base class's count of flushed
  bytes, \<^verbatim>\<open>None\<close> before the first flush.
\<close>

record s3file =
  f_path :: string
  f_bucket :: string
  f_key :: string
  f_version_id :: "string option"
  f_acl :: string
  f_mode :: file_mode
  f_blocksize :: nat
  f_autocommit :: bool
  f_append_block :: bool
  f_loc :: nat
  f_offset :: "nat option"
  f_buffer :: "bytes option"
  f_mpu :: "string option"
  f_parts :: "part_info list option"
  f_req_kw :: "(string \<times> string) list"
  f_details :: "entry option"

definition part_min :: nat where
  "part_min = 5 * 2 ^ 20"

definition part_max :: nat where
  "part_max = 5 * 2 ^ 30"

definition key_acls :: "string list" where
  "key_acls = [''private'', ''public-read'', ''public-read-write'', ''authenticated-read'',
               ''aws-exec-read'', ''bucket-owner-read'', ''bucket-owner-full-control'']"

definition buck_acls :: "string list" where
  "buck_acls = [''private'', ''public-read'', ''public-read-write'', ''authenticated-read'']"

subsection \<open>\<^verbatim>\<open>S3File.__init__\<close>\<close>

text \<open>
  \<^verbatim>\<open>
  bucket, key, path_version_id = s3.split_path(path)
  if not key:
      raise ValueError("Attempt to open non key-like path: %s" % path)
  self.bucket = bucket
  self.key = key
  self.version_id = _coalesce_version_id(version_id, path_version_id)
  self.acl = acl
  if self.acl and self.acl not in key_acls:
      raise ValueError("ACL not in %s", key_acls)
  self.mpu = None
  self.parts = None
  ...
  self.req_kw = {"RequestPayer": "requester"} if requester_pays else {}
  if "r" not in mode:
      if block_size < 5 * 2 ** 20:
          raise ValueError("Block size must be >=5MB")
  else:
      if version_id and s3.version_aware:
          self.version_id = version_id
          self.details = s3.info(path, version_id=version_id)
          self.size = self.details["size"]
      elif s3.version_aware:
          s3.invalidate_cache(path)
          self.details = s3.info(path)
          self.version_id = self.details.get("VersionId")
  super().__init__(s3, path, mode, block_size, autocommit=autocommit, ...)
  self.append_block = False
  if "a" in mode and s3.exists(path):
      loc = s3.info(path)["size"]
      if loc < 5 * 2 ** 20:
          self.write(self.fs.cat(self.path))
      else:
          self.append_block = True
      self.loc = loc
  if "r" in mode:
      self.req_kw["IfMatch"] = self.details["ETag"]
  \<close>
  The calls back into the file system are the parameters \<open>fs_info\<close>, \<open>fs_exists\<close> and
  \<open>fs_cat\<close>. The constructor of the base class is outside \<^verbatim>\<open>core.py\<close>; from it the model
  takes that a handle opened for reading without details gets them from \<^verbatim>\<open>fs.info(path)\<close>,
  and that a handle opened for writing starts with an empty buffer at position 0 and no
  flush made. The \<^verbatim>\<open>write\<close> of a small existing object into the buffer stays below the
  block size (it is shorter than 5 MiB) and so flushes nothing.
\<close>

definition init_details ::
  "bool \<Rightarrow> (string \<Rightarrow> string option \<Rightarrow> exn + entry) \<Rightarrow> string \<Rightarrow> file_mode \<Rightarrow> nat
     \<Rightarrow> string option \<Rightarrow> string option \<Rightarrow> (string option \<times> entry option) io" where
  "init_details version_aware fs_info path mode block_size version_id coalesced =
     (if mode \<noteq> Rb then
        (if block_size < 5 * 2 ^ 20 then io_raise (ValueError ''Block size must be >=5MB'')
         else io_return (coalesced, None))
      else if truthy_str version_id \<and> version_aware then
        io_bind ([FsInfo path version_id], fs_info path version_id)
          (\<lambda>d. io_return (version_id, Some d))
      else if version_aware then
        io_bind ([Invalidate path, FsInfo path None], fs_info path None)
          (\<lambda>d. io_return (e_VersionId d, Some d))
      else
        io_bind ([FsInfo path None], fs_info path None)
          (\<lambda>d. io_return (coalesced, Some d)))"

definition init_append ::
  "(string \<Rightarrow> string option \<Rightarrow> exn + entry) \<Rightarrow> (string \<Rightarrow> bool) \<Rightarrow> (string \<Rightarrow> exn + bytes)
     \<Rightarrow> s3file \<Rightarrow> s3file io" where
  "init_append fs_info fs_exists fs_cat s =
     (if f_mode s \<noteq> Ab then io_return s
      else io_bind ([FsExists (f_path s)], Inr (fs_exists (f_path s))) (\<lambda>ex.
        if \<not> ex then io_return s
        else io_bind ([FsInfo (f_path s) None], fs_info (f_path s) None) (\<lambda>d.
          let loc = e_size d
          in if loc < 5 * 2 ^ 20 then
               io_bind ([FsCat (f_path s)], fs_cat (f_path s)) (\<lambda>data.
                 io_return (s\<lparr>f_buffer := Some (the (f_buffer s) @ data), f_loc := loc\<rparr>))
             else io_return (s\<lparr>f_append_block := True, f_loc := loc\<rparr>))))"

definition init_if_match :: "s3file \<Rightarrow> s3file io" where
  "init_if_match s =
     (if f_mode s \<noteq> Rb then io_return s
      else (case f_details s of
              None \<Rightarrow> io_raise AttributeError
            | Some d \<Rightarrow>
                (case e_ETag d of
                   None \<Rightarrow> io_raise (KeyError ''ETag'')
                 | Some t \<Rightarrow> io_return (s\<lparr>f_req_kw := f_req_kw s @ [(''IfMatch'', t)]\<rparr>))))"

definition new_handle ::
  "string \<Rightarrow> string \<Rightarrow> string \<Rightarrow> string option \<Rightarrow> string \<Rightarrow> file_mode \<Rightarrow> nat \<Rightarrow> bool \<Rightarrow> bool
     \<Rightarrow> entry option \<Rightarrow> s3file" where
  "new_handle path bucket key vid acl mode block_size autocommit requester_pays details =
     \<lparr>f_path = path, f_bucket = bucket, f_key = key, f_version_id = vid, f_acl = acl,
      f_mode = mode, f_blocksize = block_size, f_autocommit = autocommit,
      f_append_block = False, f_loc = 0, f_offset = None,
      f_buffer = (if mode = Rb then None else Some []), f_mpu = None, f_parts = None,
      f_req_kw = (if requester_pays then [(''RequestPayer'', ''requester'')] else []),
      f_details = details\<rparr>"

definition s3file_init ::
  "bool \<Rightarrow> (string \<Rightarrow> string option \<Rightarrow> exn + entry) \<Rightarrow> (string \<Rightarrow> bool) \<Rightarrow> (string \<Rightarrow> exn + bytes)
     \<Rightarrow> string \<Rightarrow> file_mode \<Rightarrow> nat \<Rightarrow> string \<Rightarrow> string option \<Rightarrow> bool \<Rightarrow> bool
     \<Rightarrow> s3file io" where
  "s3file_init version_aware fs_info fs_exists fs_cat path mode block_size acl version_id
      autocommit requester_pays =
     (case split_path version_aware path of (bucket, key, path_version_id) \<Rightarrow>
        if key = [] then io_raise (ValueError ''Attempt to open non key-like path'')
        else (case coalesce_version_id [version_id, path_version_id] of
                Inl e \<Rightarrow> io_raise e
              | Inr coalesced \<Rightarrow>
                  if acl \<noteq> [] \<and> acl \<notin> set key_acls then io_raise (ValueError ''ACL not in'')
                  else
                    io_bind
                      (init_details version_aware fs_info path mode block_size version_id
                         coalesced)
                      (\<lambda>(vid, details).
                         io_bind
                           (init_append fs_info fs_exists fs_cat
                              (new_handle path bucket key vid acl mode block_size autocommit
                                 requester_pays details))
                           init_if_match)))"

subsection \<open>\<^verbatim>\<open>S3FileSystem._open\<close>\<close>


subsection \<open>Coalescing the version id\<close>














lemma io_bind_Inr:
  "io_bind m f = (evs, Inr y) \<Longrightarrow>
     \<exists>e1 x e2. m = (e1, Inr x) \<and> f x = (e2, Inr y) \<and> evs = e1 @ e2"
  by (auto simp: io_bind_def split: prod.splits sum.splits)






lemma s3file_init_Inr:
  assumes sp: "split_path va path = (bucket, key, pv)"
    and ok: "s3file_init va fi fe fc path mode bs acl v ac rp = (evs, Inr s)"
  shows "\<exists>c vid d e1 e2 s1 e3.
           coalesce_version_id [v, pv] = Inr c
         \<and> init_details va fi path mode bs v c = (e1, Inr (vid, d))
         \<and> init_append fi fe fc (new_handle path bucket key vid acl mode bs ac rp d)
              = (e2, Inr s1)
         \<and> init_if_match s1 = (e3, Inr s)
         \<and> evs = e1 @ e2 @ e3"
proof -
  from ok sp have k: "key \<noteq> []"
    by (auto simp: s3file_init_def io_raise_def split: if_splits)
  from ok sp k obtain c where c: "coalesce_version_id [v, pv] = Inr c"
    by (cases "coalesce_version_id [v, pv]") (auto simp: s3file_init_def io_raise_def)
  from ok sp k c
  have b: "io_bind (init_details va fi path mode bs v c)
             (\<lambda>(vid, details).
                 io_bind (init_append fi fe fc
                            (new_handle path bucket key vid acl mode bs ac rp details))
                   init_if_match) = (evs, Inr s)"
    by (auto simp: s3file_init_def io_raise_def split: if_splits)
  from io_bind_Inr[OF b] obtain e1 x e23
    where d: "init_details va fi path mode bs v c = (e1, Inr x)"
      and r: "(case x of (vid, details) \<Rightarrow>
                 io_bind (init_append fi fe fc
                            (new_handle path bucket key vid acl mode bs ac rp details))
                   init_if_match) = (e23, Inr s)"
      and e: "evs = e1 @ e23"
    by blast
  obtain vid dt where x: "x = (vid, dt)" by (cases x)
  from r x
  have "io_bind (init_append fi fe fc (new_handle path bucket key vid acl mode bs ac rp dt))
          init_if_match = (e23, Inr s)"
    by simp
  from io_bind_Inr[OF this] obtain e2 s1 e3
    where "init_append fi fe fc (new_handle path bucket key vid acl mode bs ac rp dt)
             = (e2, Inr s1)"
      and "init_if_match s1 = (e3, Inr s)" and "e23 = e2 @ e3"
    by blast
  with c d x e show ?thesis by auto
qed
















subsection \<open>Ranged reads: \<^verbatim>\<open>_fetch_range\<close>\<close>

text \<open>
  The module-level function and the method of the handle:
  \<^verbatim>\<open>
  def _fetch_range(fs, bucket, key, version_id, start, end, req_kw=None):
      if req_kw is None: req_kw = {}
      if start == end:
          return b""
      resp = fs.call_s3("get_object", Bucket=bucket, Key=key,
                        Range="bytes=%i-%i" % (start, end - 1),
                        **version_id_kw(version_id), **req_kw)
      return sync(fs.loop, resp["Body"].read)

  def _fetch_range(self, start, end):
      try:
          return _fetch_range(self.fs, self.bucket, self.key, self.version_id,
                              start, end, req_kw=self.req_kw)
      except OSError as ex:
          if ex.args[0] == errno.EINVAL and "pre-conditions" in ex.args[1]:
              raise FileExpired(filename=self.details["name"],
                                e_tag=self.details["ETag"]) from ex
          else:
              raise
  \<close>
  \<open>contains sub s\<close> is \<^verbatim>\<open>sub in s\<close>. Indexing \<^verbatim>\<open>ex.args\<close> out of range raises
  \<^verbatim>\<open>IndexError\<close>, and \<^verbatim>\<open>in\<close> on an integer raises \<^verbatim>\<open>TypeError\<close>.
\<close>

fun contains :: "string \<Rightarrow> string \<Rightarrow> bool" where
  "contains sub [] = (sub = [])"
| "contains sub (c # cs) = (startswith (c # cs) sub \<or> contains sub cs)"

definition EINVAL :: int where
  "EINVAL = 22"

definition fetch_range ::
  "(s3_call \<Rightarrow> exn + response) \<Rightarrow> string \<Rightarrow> string \<Rightarrow> string option \<Rightarrow> int \<Rightarrow> int
     \<Rightarrow> (string \<times> string) list \<Rightarrow> bytes io" where
  "fetch_range remote bucket key version_id start stop req_kw =
     (if start = stop then io_return []
      else io_bind
             (io_call remote
                (GetObject bucket key (start, stop - 1) (version_id_kw version_id) req_kw))
             (\<lambda>resp. io_return (r_Body resp)))"

definition expired_handler :: "s3file \<Rightarrow> exn \<Rightarrow> exn" where
  "expired_handler s ex =
     (case ex of
        OSError c args \<Rightarrow>
          (case args of
             [] \<Rightarrow> IndexError
           | a0 # rest \<Rightarrow>
               if a0 = PInt EINVAL then
                 (case rest of
                    [] \<Rightarrow> IndexError
                  | PInt n # _ \<Rightarrow> TypeError
                  | PStr m # _ \<Rightarrow>
                      if contains ''pre-conditions'' m then
                        (case f_details s of
                           None \<Rightarrow> AttributeError
                         | Some d \<Rightarrow>
                             (case e_ETag d of
                                None \<Rightarrow> KeyError ''ETag''
                              | Some t \<Rightarrow> FileExpired (e_name d) t))
                      else ex)
               else ex)
      | _ \<Rightarrow> ex)"

definition s3file_fetch_range ::
  "(s3_call \<Rightarrow> exn + response) \<Rightarrow> s3file \<Rightarrow> int \<Rightarrow> int \<Rightarrow> bytes io" where
  "s3file_fetch_range remote s start stop =
     (case fetch_range remote (f_bucket s) (f_key s) (f_version_id s) start stop (f_req_kw s) of
        (evs, Inl ex) \<Rightarrow> (evs, Inl (expired_handler s ex))
      | (evs, Inr data) \<Rightarrow> (evs, Inr data))"

lemma init_append_Rb: "f_mode s = Rb \<Longrightarrow> init_append fi fe fc s = ([], Inr s)"
  by (simp add: init_append_def io_return_def)

lemma init_if_match_Rb:
  assumes "f_mode s = Rb" "init_if_match s = (evs, Inr s')"
  shows "\<exists>d t. f_details s = Some d \<and> e_ETag d = Some t
           \<and> s' = s\<lparr>f_req_kw := f_req_kw s @ [(''IfMatch'', t)]\<rparr>"
  using assms
  by (auto simp: init_if_match_def io_return_def io_raise_def split: option.splits)

lemma init_details_Rb:
  assumes "init_details va fi path Rb bs v c = (evs, Inr (vid, d))"
  shows "\<exists>e. d = Some e \<and> (fi path None = Inr e \<or> fi path v = Inr e)"
  using assms
  by (auto simp: init_details_def io_bind_def io_return_def io_raise_def
        split: if_splits sum.splits prod.splits)

lemma s3file_init_Rb:
  assumes sp: "split_path va path = (bucket, key, pv)"
    and ok: "s3file_init va fi fe fc path Rb bs acl v ac rp = (evs, Inr s)"
  shows "\<exists>d t. f_details s = Some d \<and> e_ETag d = Some t
           \<and> (fi path None = Inr d \<or> fi path v = Inr d)
           \<and> f_req_kw s = (if rp then [(''RequestPayer'', ''requester'')] else [])
                             @ [(''IfMatch'', t)]
           \<and> f_bucket s = bucket \<and> f_key s = key"
proof -
  from s3file_init_Inr[OF sp ok] obtain c vid d e1 e2 s1 e3
    where d: "init_details va fi path Rb bs v c = (e1, Inr (vid, d))"
      and a: "init_append fi fe fc (new_handle path bucket key vid acl Rb bs ac rp d)
                = (e2, Inr s1)"
      and m: "init_if_match s1 = (e3, Inr s)"
    by blast
  let ?h = "new_handle path bucket key vid acl Rb bs ac rp d"
  have hm: "f_mode ?h = Rb" by (simp add: new_handle_def)
  from a init_append_Rb[OF hm, of fi fe fc] have s1: "s1 = ?h" by simp
  from init_if_match_Rb[OF _ m] s1 hm obtain dd t
    where "f_details ?h = Some dd" "e_ETag dd = Some t"
      "s = ?h\<lparr>f_req_kw := f_req_kw ?h @ [(''IfMatch'', t)]\<rparr>"
    by auto
  moreover from init_details_Rb[OF d] obtain e
    where "d = Some e" "fi path None = Inr e \<or> fi path v = Inr e" by blast
  ultimately show ?thesis by (auto simp: new_handle_def)
qed


text \<open>
  Claim C8: a handle opened for reading holds the details of the object as looked up at
  open time, and their \<^verbatim>\<open>ETag\<close> as \<^verbatim>\<open>IfMatch\<close> in its request arguments. Every ranged
  get that the handle issues (any range with \<^verbatim>\<open>start \<noteq> end\<close>, any remote store) is
  the one request that carries these arguments. When the store answers with the
  precondition failure, which reaches the handle as \<^verbatim>\<open>OSError(EINVAL, msg)\<close> with
  \<^verbatim>\<open>pre-conditions\<close> in the message, the read raises \<^verbatim>\<open>FileExpired\<close> with the name and
  the \<^verbatim>\<open>ETag\<close> of the details, and returns no bytes.
\<close>

theorem read_handle_sends_if_match:
  assumes sp: "split_path va path = (bucket, key, pv)"
    and ok: "s3file_init va fi fe fc path Rb bs acl v ac rp = (evs, Inr s)"
  shows "\<exists>d t. f_details s = Some d \<and> e_ETag d = Some t
           \<and> (fi path None = Inr d \<or> fi path v = Inr d)
           \<and> (''IfMatch'', t) \<in> set (f_req_kw s)
           \<and> (\<forall>remote start stop. start \<noteq> stop \<longrightarrow>
                 fst (s3file_fetch_range remote s start stop)
                   = [Call (GetObject bucket key (start, stop - 1)
                              (version_id_kw (f_version_id s)) (f_req_kw s))])
           \<and> (\<forall>remote start stop c msg.
                 start \<noteq> stop
                 \<and> remote (GetObject bucket key (start, stop - 1)
                             (version_id_kw (f_version_id s)) (f_req_kw s))
                     = Inl (OSError c [PInt EINVAL, PStr msg])
                 \<and> contains ''pre-conditions'' msg \<longrightarrow>
                 snd (s3file_fetch_range remote s start stop) = Inl (FileExpired (e_name d) t))"
proof -
  from s3file_init_Rb[OF sp ok] obtain d t
    where d: "f_details s = Some d" "e_ETag d = Some t"
      and f: "fi path None = Inr d \<or> fi path v = Inr d"
      and k: "f_req_kw s = (if rp then [(''RequestPayer'', ''requester'')] else [])
                             @ [(''IfMatch'', t)]"
      and b: "f_bucket s = bucket" "f_key s = key"
    by blast
  have m: "(''IfMatch'', t) \<in> set (f_req_kw s)" by (simp add: k)
  have c1: "fst (s3file_fetch_range remote s start stop)
              = [Call (GetObject bucket key (start, stop - 1)
                         (version_id_kw (f_version_id s)) (f_req_kw s))]"
    if "start \<noteq> stop" for remote start stop
    using that b
    by (simp add: s3file_fetch_range_def fetch_range_def io_bind_def io_call_def io_return_def
          split: sum.splits prod.splits)
  have c2: "snd (s3file_fetch_range remote s start stop) = Inl (FileExpired (e_name d) t)"
    if "start \<noteq> stop"
      "remote (GetObject bucket key (start, stop - 1)
                 (version_id_kw (f_version_id s)) (f_req_kw s))
         = Inl (OSError c [PInt EINVAL, PStr msg])"
      "contains ''pre-conditions'' msg"
    for remote start stop c msg
    using that b d
    by (simp add: s3file_fetch_range_def fetch_range_def io_bind_def io_call_def io_return_def
          expired_handler_def)
  from d f m c1 c2 show ?thesis by blast
qed


definition demo_details :: entry where
  "demo_details =
     \<lparr>e_Key = ''b/k'', e_Size = 12, e_StorageClass = ''STANDARD'', e_type = ''file'',
      e_size = 12, e_name = ''b/k'', e_ETag = Some ''etag1'', e_VersionId = None\<rparr>"

definition demo_read_handle :: s3file where
  "demo_read_handle =
     (new_handle ''b/k'' ''b'' ''k'' None [] Rb (5 * 2 ^ 20) True False (Some demo_details))
       \<lparr>f_req_kw := [(''IfMatch'', ''etag1'')]\<rparr>"

definition precondition_failed :: "s3_call \<Rightarrow> exn + response" where
  "precondition_failed c =
     Inl (OSError Plain
            [PInt 22, PStr ''At least one of the pre-conditions you specified did not hold''])"

lemma split_path_b_k: "split_path False ''b/k'' = (''b'', ''k'', None)"
  by code_simp

lemma demo_read_handle_init:
  "s3file_init False (\<lambda>p v. Inr demo_details) (\<lambda>p. False) (\<lambda>p. Inr []) ''b/k'' Rb
     (5 * 2 ^ 20) [] None True False = ([FsInfo ''b/k'' None], Inr demo_read_handle)"
  by (simp add: s3file_init_def split_path_b_k coalesce_version_id_def init_details_def
        truthy_str_def io_bind_def io_return_def init_append_def init_if_match_def
        new_handle_def demo_details_def demo_read_handle_def)

theorem read_handle_sends_if_match_witness:
  "s3file_fetch_range precondition_failed demo_read_handle 0 10
     = ([Call (GetObject ''b'' ''k'' (0, 9) None [(''IfMatch'', ''etag1'')])],
        Inl (FileExpired ''b/k'' ''etag1''))"
proof -
  have p: "contains ''pre-conditions''
             ''At least one of the pre-conditions you specified did not hold''"
    by code_simp
  have h: "f_details demo_read_handle = Some demo_details"
    "f_req_kw demo_read_handle = [(''IfMatch'', ''etag1'')]"
    "f_version_id demo_read_handle = None"
    by (simp_all add: demo_read_handle_def new_handle_def)
  from read_handle_sends_if_match[OF split_path_b_k demo_read_handle_init] obtain d t
    where d: "f_details demo_read_handle = Some d" "e_ETag d = Some t"
      and c1: "\<And>remote start stop. start \<noteq> stop \<Longrightarrow>
                 fst (s3file_fetch_range remote demo_read_handle start stop)
                   = [Call (GetObject ''b'' ''k'' (start, stop - 1)
                              (version_id_kw (f_version_id demo_read_handle))
                              (f_req_kw demo_read_handle))]"
      and c2: "\<And>remote start stop c msg.
                 start \<noteq> stop
                 \<and> remote (GetObject ''b'' ''k'' (start, stop - 1)
                             (version_id_kw (f_version_id demo_read_handle))
                             (f_req_kw demo_read_handle))
                     = Inl (OSError c [PInt EINVAL, PStr msg])
                 \<and> contains ''pre-conditions'' msg \<Longrightarrow>
                 snd (s3file_fetch_range remote demo_read_handle start stop)
                   = Inl (FileExpired (e_name d) t)"
    by blast
  from d(1) h(1) have dd: "d = demo_details" by simp
  with d(2) have dt: "d = demo_details" "t = ''etag1''" by (simp_all add: demo_details_def)
  have "fst (s3file_fetch_range precondition_failed demo_read_handle 0 10)
          = [Call (GetObject ''b'' ''k'' (0, 9) None [(''IfMatch'', ''etag1'')])]"
    using c1[of 0 10 precondition_failed] h by (simp add: version_id_kw_def truthy_str_def)
  moreover have "snd (s3file_fetch_range precondition_failed demo_read_handle 0 10)
          = Inl (FileExpired ''b/k'' ''etag1'')"
    using c2[of 0 10 precondition_failed Plain
        "''At least one of the pre-conditions you specified did not hold''"] p dt
    by (simp add: precondition_failed_def EINVAL_def demo_details_def)
  ultimately show ?thesis by (simp add: prod_eq_iff)
qed

subsection \<open>Mutations and the directory cache: \<^verbatim>\<open>_touch\<close> and \<^verbatim>\<open>_bulk_delete\<close>\<close>

text \<open>
  \<^verbatim>\<open>
  async def _touch(self, path, truncate=True, data=None, **kwargs):
      bucket, key, version_id = self.split_path(path)
      if version_id:
          raise ValueError("S3 does not support touching existing versions of files")
      if not truncate and await self._exists(path):
          raise ValueError("S3 does not support touching existent files")
      try:
          write_result = await self._call_s3("put_object", Bucket=bucket, Key=key, **kwargs)
      except ClientError as ex:
          raise translate_boto_error(ex)
      self.invalidate_cache(self._parent(path))
      return write_result
  \<close>
  \<^verbatim>\<open>_exists\<close> is the parameter \<open>fs_exists\<close> and leaves the event \<open>FsExists\<close>; the keyword
  arguments are left out; \<open>trunc\<close> is the argument \<^verbatim>\<open>truncate\<close>.
\<close>

definition touch ::
  "bool \<Rightarrow> (exn \<Rightarrow> exn) \<Rightarrow> (string \<Rightarrow> bool) \<Rightarrow> (s3_call \<Rightarrow> exn + response) \<Rightarrow> string \<Rightarrow> bool
     \<Rightarrow> response io" where
  "touch version_aware translate_boto_error fs_exists remote path trunc =
     (case split_path version_aware path of (bucket, key, version_id) \<Rightarrow>
        if truthy_str version_id then
          io_raise (ValueError ''S3 does not support touching existing versions of files'')
        else
          io_bind (if trunc then io_return False
                   else ([FsExists path], Inr (fs_exists path)))
            (\<lambda>ex.
               if ex then
                 io_raise (ValueError ''S3 does not support touching existent files'')
               else
                 (case remote (PutObject bucket key None) of
                    Inl (ClientError code) \<Rightarrow>
                      ([Call (PutObject bucket key None)],
                       Inl (translate_boto_error (ClientError code)))
                  | Inl e \<Rightarrow> ([Call (PutObject bucket key None)], Inl e)
                  | Inr write_result \<Rightarrow>
                      ([Call (PutObject bucket key None), Invalidate (parent path)],
                       Inr write_result))))"

text \<open>
  \<^verbatim>\<open>
  async def _bulk_delete(self, pathlist, **kwargs):
      if not pathlist:
          return
      buckets = {self.split_path(path)[0] for path in pathlist}
      if len(buckets) > 1:
          raise ValueError("Bulk delete files should refer to only one bucket")
      bucket = buckets.pop()
      if len(pathlist) > 1000:
          raise ValueError("Max number of files to delete in one call is 1000")
      delete_keys = {
          "Objects": [{"Key": self.split_path(path)[1]} for path in pathlist],
          "Quiet": True,
      }
      for path in pathlist:
          self.invalidate_cache(self._parent(path))
      await self._call_s3("delete_objects", kwargs, Bucket=bucket, Delete=delete_keys)
  \<close>
  The set of buckets is the list of the distinct buckets; where \<^verbatim>\<open>pop\<close> is reached it has
  one element.
\<close>

definition bulk_delete ::
  "bool \<Rightarrow> (s3_call \<Rightarrow> exn + response) \<Rightarrow> string list \<Rightarrow> unit io" where
  "bulk_delete version_aware remote pathlist =
     (if pathlist = [] then io_return ()
      else
        let buckets = remdups (map (\<lambda>path. fst (split_path version_aware path)) pathlist)
        in if length buckets > 1 then
             io_raise (ValueError ''Bulk delete files should refer to only one bucket'')
           else
             let bucket = hd buckets
             in if length pathlist > 1000 then
                  io_raise (ValueError ''Max number of files to delete in one call is 1000'')
                else
                  let delete_keys =
                        map (\<lambda>path. fst (snd (split_path version_aware path))) pathlist
                  in io_bind (map (\<lambda>path. Invalidate (parent path)) pathlist, Inr ())
                       (\<lambda>_. io_bind (io_call remote (DeleteObjects bucket delete_keys))
                               (\<lambda>_. io_return ())))"

text \<open>
  Claim C4: for every mutating operation, the invalidation of the directory cache comes
  strictly after the mutating remote call has succeeded, never before the remote effect
  is confirmed. \<^verbatim>\<open>_touch\<close> keeps this order: when \<^verbatim>\<open>put_object\<close> is refused, nothing is
  invalidated. \<^verbatim>\<open>_bulk_delete\<close> does not: it invalidates the parent of every path first
  and sends \<^verbatim>\<open>delete_objects\<close> afterwards, so the cache entry of \<^verbatim>\<open>b\<close> is dropped for a
  delete of \<^verbatim>\<open>b/k\<close> that the store refuses.
\<close>

theorem bulk_delete_invalidates_before_delete:
  "bulk_delete True (\<lambda>c. Inl (OSError Permission [PStr ''AccessDenied''])) [''b/k'']
     = ([Invalidate ''b'', Call (DeleteObjects ''b'' [''k''])],
        Inl (OSError Permission [PStr ''AccessDenied'']))
   \<and> touch True id (\<lambda>p. False) (\<lambda>c. Inl (OSError Permission [PStr ''AccessDenied'']))
         ''b/k'' True
     = ([Call (PutObject ''b'' ''k'' None)], Inl (OSError Permission [PStr ''AccessDenied'']))"
proof -
  have sp: "split_path True ''b/k'' = (''b'', ''k'', None)"
    by code_simp
  have pa: "parent ''b/k'' = ''b''"
    by code_simp
  show ?thesis
    by (simp add: bulk_delete_def touch_def sp pa Let_def io_bind_def io_call_def
          io_return_def io_raise_def truthy_str_def)
qed

end
